theory Spec2Isabelle
  imports Main "HOL-Library.Word"
begin

section \<open>The service event classifier of internal/proxier/handlers.go\<close>

subsection \<open>Events and the cluster objects they carry\<close>

text \<open>
  \<^verbatim>\<open>type EventType string\<close> with the two values \<^verbatim>\<open>"added"\<close> and
  \<^verbatim>\<open>"deleted"\<close>. Being a string type, an event may carry any other string as well.
\<close>

type_synonym EventType = string

definition EventAdded :: EventType where
  "EventAdded = ''added''"

definition EventDeleted :: EventType where
  "EventDeleted = ''deleted''"

text \<open>
  The fields of \<^verbatim>\<open>corev1.Service\<close> that the processor reads: the object's name and
  namespace, \<^verbatim>\<open>Spec.ClusterIP\<close> and \<^verbatim>\<open>Spec.Ports\<close>. A port number is an
  \<^verbatim>\<open>int32\<close>.
\<close>

record ServicePort =
  port_Name :: string
  port_Port :: "32 word"

record Service =
  svc_Name :: string
  svc_Namespace :: string
  svc_ClusterIP :: string
  svc_Ports :: "ServicePort list"

text \<open>\<^verbatim>\<open>ServiceEvent.Service\<close> is a pointer: \<open>None\<close> is the nil pointer.\<close>

record ServiceEvent =
  ev_EventType :: EventType
  ev_Service :: "Service option"

text \<open>
  The fields of \<^verbatim>\<open>corev1.Endpoints\<close> that the processor reads. A subset lists its ready
  addresses under \<^verbatim>\<open>Addresses\<close>, the others under \<^verbatim>\<open>NotReadyAddresses\<close>, and the
  ports of the backing pods under \<^verbatim>\<open>Ports\<close>. \<^verbatim>\<open>TargetRef\<close> is a pointer.
\<close>

record ObjectReference =
  ref_Kind :: string
  ref_Name :: string
  ref_Namespace :: string

record EndpointAddress =
  addr_IP :: string
  addr_TargetRef :: "ObjectReference option"

record EndpointPort =
  eport_Name :: string
  eport_Port :: "32 word"

record EndpointSubset =
  Addresses :: "EndpointAddress list"
  NotReadyAddresses :: "EndpointAddress list"
  Ports :: "EndpointPort list"

record Endpoints =
  Subsets :: "EndpointSubset list"

text \<open>
  Go errors as values: the error of a failed API call, and the error that
  \<^verbatim>\<open>fmt.Errorf\<close> builds from a message.
\<close>

datatype error = ApiError string | Errorf string

text \<open>
  \<^verbatim>\<open>k.CoreV1().Endpoints(namespace).Get(ctx, name, ...)\<close>: the cluster API as a function
  of the namespace and the name, answering with an error or with the endpoints object.
\<close>

type_synonym kube = "string \<Rightarrow> string \<Rightarrow> error + Endpoints"

subsection \<open>Requests sent to the port-forward worker\<close>

text \<open>
  Modelled from the spec: the declarations of \<^verbatim>\<open>ServiceType\<close>,
  \<^verbatim>\<open>ServiceTypeStandard\<close> and \<^verbatim>\<open>ServiceTypeStatefulset\<close> are not in the source files
  at hand. The spec has the two topologies Ordinary and Decentralized, and an Ordinary
  service, whose \<^verbatim>\<open>Type\<close> the processor leaves at the empty string it starts with,
  gets its create request in the \<^verbatim>\<open>ServiceTypeStandard\<close> case. So \<^verbatim>\<open>ServiceTypeStandard\<close>
  is the empty string and \<^verbatim>\<open>ServiceTypeStatefulset\<close> another string.
\<close>

type_synonym ServiceType = string

definition ServiceTypeStandard :: ServiceType where
  "ServiceTypeStandard = ''''"

definition ServiceTypeStatefulset :: ServiceType where
  "ServiceTypeStatefulset = ''statefulset''"

text \<open>
  \<^verbatim>\<open>ServiceInfo\<close>, \<^verbatim>\<open>PodInfo\<close> and the request structs, with the fields that the
  processor's struct literals fill. \<^verbatim>\<open>PodInfo{e.TargetRef.Name, e.TargetRef.Namespace}\<close>
  is positional: the pod's name, then its namespace. A \<^verbatim>\<open>PortForwardRequest\<close> holds
  two pointers, at most one of which the processor sets.
\<close>

record ServiceInfo =
  info_Name :: string
  info_Namespace :: string
  info_Type :: ServiceType

record PodInfo =
  pod_Name :: string
  pod_Namespace :: string

record CreatePortForwardRequest =
  create_Service :: ServiceInfo
  create_Ports :: "int list"
  create_Endpoint :: "PodInfo option"
  create_Hostnames :: "string list"

record DeletePortForwardRequest =
  delete_Service :: ServiceInfo

record PortForwardRequest =
  CreatePortForwardRequest :: "CreatePortForwardRequest option"
  DeletePortForwardRequest :: "DeletePortForwardRequest option"

subsection \<open>One iteration of the processor's loop\<close>

text \<open>
  \<^verbatim>\<open>ports[i] = int(p.Port)\<close> for every declared port, in order. Go's \<^verbatim>\<open>int\<close> has at
  least 32 bits, so the conversion keeps the signed value.
\<close>

definition servicePorts :: "Service \<Rightarrow> int list" where
  "servicePorts svc = map (\<lambda>p. sint (port_Port p)) (svc_Ports svc)"

text \<open>The five hostnames of the \<^verbatim>\<open>ServiceTypeStandard\<close> case (lines 86 to 92).\<close>

definition standardHostnames :: "ServiceInfo \<Rightarrow> string list" where
  "standardHostnames info =
     [info_Name info,
      info_Name info @ ''.'' @ info_Namespace info,
      info_Name info @ ''.'' @ info_Namespace info @ ''.svc'',
      info_Name info @ ''.'' @ info_Namespace info @ ''.svc.cluster'',
      info_Name info @ ''.'' @ info_Namespace info @ ''.svc.cluster.local'']"

text \<open>
  The five hostnames of the \<^verbatim>\<open>ServiceTypeStatefulset\<close> case (lines 118 to 124), where
  \<open>name\<close> is \<^verbatim>\<open>fmt.Sprintf("%s.%s", e.TargetRef.Name, info.Name)\<close>. The first entry is
  \<^verbatim>\<open>info.Name\<close>.
\<close>

definition statefulsetHostnames :: "ServiceInfo \<Rightarrow> string \<Rightarrow> string list" where
  "statefulsetHostnames info name =
     [info_Name info,
      name @ ''.'' @ info_Namespace info,
      name @ ''.'' @ info_Namespace info @ ''.svc'',
      name @ ''.'' @ info_Namespace info @ ''.svc.cluster'',
      name @ ''.'' @ info_Namespace info @ ''.svc.cluster.local'']"

text \<open>
  The body of the inner loop (lines 104 to 126): what one endpoint address sends. An
  address with a nil \<^verbatim>\<open>TargetRef\<close>, or one whose kind is not \<^verbatim>\<open>"Pod"\<close>, is passed
  over.
\<close>

definition addressRequests :: "ServiceInfo \<Rightarrow> int list \<Rightarrow> EndpointAddress \<Rightarrow> PortForwardRequest list" where
  "addressRequests info ports e =
     (case addr_TargetRef e of
        None \<Rightarrow> []
      | Some ref \<Rightarrow>
          if ref_Kind ref \<noteq> ''Pod'' then []
          else
            (let name = ref_Name ref @ ''.'' @ info_Name info
             in [\<lparr>CreatePortForwardRequest = Some
                    \<lparr>create_Service = info,
                     create_Ports = ports,
                     create_Endpoint = Some \<lparr>pod_Name = ref_Name ref, pod_Namespace = ref_Namespace ref\<rparr>,
                     create_Hostnames = statefulsetHostnames info name\<rparr>,
                  DeletePortForwardRequest = None\<rparr>]))"

text \<open>
  The two nested loops (lines 102 to 128): every subset in order, and in each subset every
  address of \<^verbatim>\<open>Addresses\<close> in order.
\<close>

definition endpointsRequests :: "ServiceInfo \<Rightarrow> int list \<Rightarrow> Endpoints \<Rightarrow> PortForwardRequest list" where
  "endpointsRequests info ports endpoints =
     concat (map (\<lambda>addresses. concat (map (addressRequests info ports) (Addresses addresses)))
                 (Subsets endpoints))"

text \<open>
  Lines 58 to 71: the \<^verbatim>\<open>ServiceInfo\<close> built from the service, and the type set when the
  cluster address is \<^verbatim>\<open>"None"\<close>.
\<close>

definition newServiceInfo :: "Service \<Rightarrow> ServiceInfo" where
  "newServiceInfo svc =
     \<lparr>info_Name = svc_Name svc, info_Namespace = svc_Namespace svc, info_Type = ''''\<rparr>"

definition setServiceType :: "Service \<Rightarrow> ServiceInfo \<Rightarrow> ServiceInfo" where
  "setServiceType svc info =
     (if svc_ClusterIP svc = ''None'' then info\<lparr>info_Type := ServiceTypeStatefulset\<rparr> else info)"

text \<open>
  The body of the \<^verbatim>\<open>case s := <-event\<close> branch (lines 58 to 136): the requests sent on
  \<^verbatim>\<open>requester\<close> for one received event, in the order they are sent. The result is
  \<open>None\<close> when the goroutine panics, which it does on a nil \<^verbatim>\<open>s.Service\<close> at line 59,
  before anything is sent. Every \<^verbatim>\<open>continue\<close> ends the iteration with what was sent so
  far. Neither \<^verbatim>\<open>switch\<close> has a default case.
\<close>

definition serviceProcessor_event :: "kube \<Rightarrow> ServiceEvent \<Rightarrow> PortForwardRequest list option" where
  "serviceProcessor_event k s =
     (case ev_Service s of
        None \<Rightarrow> None
      | Some svc \<Rightarrow>
          (let info = newServiceInfo svc in
           if info_Name info = ''kubernetes'' then Some []
           else
             (let info = setServiceType svc info in
              if ev_EventType s = EventAdded then
                (let ports = servicePorts svc in
                 if info_Type info = ServiceTypeStandard then
                   Some [\<lparr>CreatePortForwardRequest = Some
                            \<lparr>create_Service = info,
                             create_Ports = ports,
                             create_Endpoint = None,
                             create_Hostnames = standardHostnames info\<rparr>,
                          DeletePortForwardRequest = None\<rparr>]
                 else if info_Type info = ServiceTypeStatefulset then
                   (case k (info_Namespace info) (info_Name info) of
                      Inl err \<Rightarrow> Some []
                    | Inr endpoints \<Rightarrow> Some (endpointsRequests info ports endpoints))
                 else Some [])
              else if ev_EventType s = EventDeleted then
                Some [\<lparr>CreatePortForwardRequest = None,
                       DeletePortForwardRequest = Some \<lparr>delete_Service = info\<rparr>\<rparr>]
              else Some [])))"

subsection \<open>The loop\<close>

text \<open>
  What one turn of the \<^verbatim>\<open>select\<close> finds: the context cancelled, or an event on the
  channel. The cluster API is given with the event, as it answers during that iteration:
  its answers change with the cluster.
\<close>

datatype selected = CtxDone | Received ServiceEvent kube

text \<open>
  How a run over the given turns ends: \<^verbatim>\<open>doneChan\<close> closed and the function returned,
  the goroutine panicked, or the loop waiting in \<^verbatim>\<open>select\<close> for a turn that is not
  among those given.
\<close>

datatype exit = DoneClosed | Panicked | Waiting

text \<open>
  \<^verbatim>\<open>serviceProcessor\<close>: the requests sent on \<^verbatim>\<open>requester\<close>, in order, and how the run
  ends. Each send is taken to be received: the channel is unbuffered and the processor
  does nothing else while it waits for its consumer.
\<close>

fun serviceProcessor :: "selected list \<Rightarrow> PortForwardRequest list \<times> exit" where
  "serviceProcessor [] = ([], Waiting)"
| "serviceProcessor (CtxDone # rest) = ([], DoneClosed)"
| "serviceProcessor (Received s k # rest) =
     (case serviceProcessor_event k s of
        None \<Rightarrow> ([], Panicked)
      | Some reqs \<Rightarrow> (case serviceProcessor rest of (sent, e) \<Rightarrow> (reqs @ sent, e)))"

section \<open>The proxier of internal/proxier/proxy.go\<close>

text \<open>
  Modelled from the spec: the declarations of \<^verbatim>\<open>worker\<close>, of the entries of its
  \<^verbatim>\<open>portForwards\<close> table and of \<^verbatim>\<open>PortForwardStatus\<close> are not in the source files at
  hand. The spec has a table from service identity to an ordered sequence of tunnel
  entries, each with a status that the core stores and does not interpret; \<^verbatim>\<open>List\<close>
  reads \<^verbatim>\<open>p.worker.portForwards[serv][i].Status\<close>. The status is the type parameter
  \<open>'st\<close>. The table is an association list, read in the order in which \<^verbatim>\<open>range\<close>
  visits the keys, which Go leaves open.
\<close>

record 'st PortForwardConnection =
  Status :: 'st

record 'st worker =
  portForwards :: "(ServiceInfo \<times> 'st PortForwardConnection list) list"

text \<open>
  \<^verbatim>\<open>Proxier\<close>: of its fields only \<^verbatim>\<open>worker\<close>, a pointer, is read by \<^verbatim>\<open>List\<close> and
  written by \<^verbatim>\<open>Start\<close>; \<^verbatim>\<open>k\<close>, \<^verbatim>\<open>rest\<close> and \<^verbatim>\<open>log\<close> are handed on unchanged.
  \<^verbatim>\<open>NewProxier\<close> leaves \<^verbatim>\<open>worker\<close> nil.
\<close>

record 'st Proxier =
  worker :: "'st worker option"

record 'st ServiceStatus =
  ServiceInfo :: ServiceInfo
  Statuses :: "'st list"

definition NewProxier :: "'st Proxier" where
  "NewProxier = \<lparr>worker = None\<rparr>"

text \<open>
  \<^verbatim>\<open>List\<close> returns a pair: the statuses (nil with the error) and the error (nil without
  one). Indexing the table with a key yields the empty slice where the key is absent.
\<close>

definition List :: "'st Proxier \<Rightarrow> 'st ServiceStatus list \<times> error option" where
  "List p =
     (case worker p of
        None \<Rightarrow> ([], Some (Errorf ''proxier not running''))
      | Some w \<Rightarrow>
          (map (\<lambda>serv.
                  \<lparr>ServiceInfo = serv,
                   Statuses = map Status
                     (case map_of (portForwards w) serv of None \<Rightarrow> [] | Some conns \<Rightarrow> conns)\<rparr>)
               (map fst (portForwards w)),
           None))"

text \<open>
  One call of \<^verbatim>\<open>Start\<close>, as the places where it can stand: at its entry, blocked on
  \<^verbatim>\<open><-handlerDoneChan\<close> (line 91), blocked on \<^verbatim>\<open><-pfdoneChan\<close> (line 92), or returned
  with its result.
\<close>

datatype startPc = Entry | AwaitHandlerDone | AwaitPfDone | Returned "error option"

text \<open>
  What can happen around the call. \<^verbatim>\<open>NewPortForwarder\<close> is not in the source files at
  hand: its returned worker pointer and error are taken as given. The two done channels
  are closed by the processor and by the port forwarder once the context is cancelled.
  The worker writes its own table, which \<^verbatim>\<open>p.worker\<close> points to.
\<close>

datatype 'st occurrence =
    NewPortForwarderReturns "'st worker option" "error option"
  | HandlerDoneClosed
  | PfDoneClosed
  | WorkerWrites "(ServiceInfo \<times> 'st PortForwardConnection list) list"

text \<open>
  \<^verbatim>\<open>Start\<close> step by step: lines 59 to 63 assign \<^verbatim>\<open>p.worker\<close> unless the error is set,
  and nothing after them assigns it. An occurrence that the call is not waiting for leaves
  it where it is.
\<close>

fun Start_step :: "'st occurrence \<Rightarrow> 'st Proxier \<times> startPc \<Rightarrow> 'st Proxier \<times> startPc" where
  "Start_step (NewPortForwarderReturns w (Some err)) (p, Entry) = (p, Returned (Some err))"
| "Start_step (NewPortForwarderReturns w None) (p, Entry) = (p\<lparr>worker := w\<rparr>, AwaitHandlerDone)"
| "Start_step HandlerDoneClosed (p, AwaitHandlerDone) = (p, AwaitPfDone)"
| "Start_step PfDoneClosed (p, AwaitPfDone) = (p, Returned None)"
| "Start_step (WorkerWrites t) (p, c) =
     (case worker p of
        None \<Rightarrow> (p, c)
      | Some w \<Rightarrow> (p\<lparr>worker := Some (w\<lparr>portForwards := t\<rparr>)\<rparr>, c))"
| "Start_step _ (p, c) = (p, c)"

section \<open>Notions of the specification\<close>

text \<open>
  The specification's progressive qualification of a root name in a namespace: root,
  root.namespace, root.namespace.svc, root.namespace.svc.cluster and
  root.namespace.svc.cluster.local.
\<close>

definition qualifiedHostnames_spec :: "string \<Rightarrow> string \<Rightarrow> string list" where
  "qualifiedHostnames_spec root namespace =
     [root,
      root @ ''.'' @ namespace,
      root @ ''.'' @ namespace @ ''.svc'',
      root @ ''.'' @ namespace @ ''.svc.cluster'',
      root @ ''.'' @ namespace @ ''.svc.cluster.local'']"

text \<open>
  The ready endpoint addresses of an endpoints object, over all its subsets, and those of
  them that refer back to a pod: the pod reference of an address, if it has one.
\<close>

definition readyAddresses :: "Endpoints \<Rightarrow> EndpointAddress list" where
  "readyAddresses endpoints = concat (map Addresses (Subsets endpoints))"

definition podTarget :: "EndpointAddress \<Rightarrow> ObjectReference option" where
  "podTarget e =
     (case addr_TargetRef e of
        None \<Rightarrow> None
      | Some ref \<Rightarrow> if ref_Kind ref = ''Pod'' then Some ref else None)"

definition podTargets :: "Endpoints \<Rightarrow> ObjectReference list" where
  "podTargets endpoints = List.map_filter podTarget (readyAddresses endpoints)"

text \<open>The cluster API with the ports of every endpoint subset replaced.\<close>

definition withSubsetPorts :: "(EndpointSubset \<Rightarrow> EndpointPort list) \<Rightarrow> kube \<Rightarrow> kube" where
  "withSubsetPorts f k namespace name =
     (case k namespace name of
        Inl err \<Rightarrow> Inl err
      | Inr endpoints \<Rightarrow>
          Inr (endpoints\<lparr>Subsets := map (\<lambda>sub. sub\<lparr>Ports := f sub\<rparr>) (Subsets endpoints)\<rparr>))"

section \<open>Example inputs\<close>

text \<open>
  An ordinary service, a headless one, and the cluster's own API service; the endpoints
  of the headless service, with one ready address backed by a pod, one ready address
  without a back-reference, one ready address backed by a node and one address that is not
  ready.
\<close>

definition example_web :: Service where
  "example_web =
     \<lparr>svc_Name = ''web'', svc_Namespace = ''default'', svc_ClusterIP = ''10.0.0.1'',
      svc_Ports = [\<lparr>port_Name = ''http'', port_Port = 80\<rparr>]\<rparr>"

definition example_db :: Service where
  "example_db =
     \<lparr>svc_Name = ''db'', svc_Namespace = ''ns'', svc_ClusterIP = ''None'',
      svc_Ports = [\<lparr>port_Name = ''postgres'', port_Port = 5432\<rparr>]\<rparr>"

definition example_kubernetes :: Service where
  "example_kubernetes =
     \<lparr>svc_Name = ''kubernetes'', svc_Namespace = ''default'', svc_ClusterIP = ''10.96.0.1'',
      svc_Ports = [\<lparr>port_Name = ''https'', port_Port = 443\<rparr>]\<rparr>"

definition example_db_endpoints :: Endpoints where
  "example_db_endpoints =
     \<lparr>Subsets =
        [\<lparr>Addresses =
            [\<lparr>addr_IP = ''10.1.0.5'',
              addr_TargetRef = Some \<lparr>ref_Kind = ''Pod'', ref_Name = ''pod-0'', ref_Namespace = ''ns''\<rparr>\<rparr>,
             \<lparr>addr_IP = ''10.1.0.6'', addr_TargetRef = None\<rparr>,
             \<lparr>addr_IP = ''10.1.0.7'',
              addr_TargetRef = Some \<lparr>ref_Kind = ''Node'', ref_Name = ''node-a'', ref_Namespace = []\<rparr>\<rparr>],
          NotReadyAddresses =
            [\<lparr>addr_IP = ''10.1.0.8'',
              addr_TargetRef = Some \<lparr>ref_Kind = ''Pod'', ref_Name = ''pod-1'', ref_Namespace = ''ns''\<rparr>\<rparr>],
          Ports = [\<lparr>eport_Name = ''postgres'', eport_Port = 5432\<rparr>]\<rparr>]\<rparr>"

definition example_kube :: kube where
  "example_kube namespace name =
     (if namespace = ''ns'' \<and> name = ''db'' then Inr example_db_endpoints
      else Inl (ApiError ''not found''))"

definition failing_kube :: kube where
  "failing_kube namespace name = Inl (ApiError ''connection refused'')"

definition example_web_added :: ServiceEvent where
  "example_web_added = \<lparr>ev_EventType = EventAdded, ev_Service = Some example_web\<rparr>"

definition example_web_deleted :: ServiceEvent where
  "example_web_deleted = \<lparr>ev_EventType = EventDeleted, ev_Service = Some example_web\<rparr>"

definition example_db_added :: ServiceEvent where
  "example_db_added = \<lparr>ev_EventType = EventAdded, ev_Service = Some example_db\<rparr>"

definition example_kubernetes_added :: ServiceEvent where
  "example_kubernetes_added = \<lparr>ev_EventType = EventAdded, ev_Service = Some example_kubernetes\<rparr>"

text \<open>The request that the processor sends for the pod \<open>pod-0\<close> of the headless service.\<close>

definition example_db_request :: PortForwardRequest where
  "example_db_request =
     \<lparr>CreatePortForwardRequest = Some
        \<lparr>create_Service = \<lparr>info_Name = ''db'', info_Namespace = ''ns'', info_Type = ''statefulset''\<rparr>,
         create_Ports = [5432],
         create_Endpoint = Some \<lparr>pod_Name = ''pod-0'', pod_Namespace = ''ns''\<rparr>,
         create_Hostnames =
           [''db'', ''pod-0.db.ns'', ''pod-0.db.ns.svc'', ''pod-0.db.ns.svc.cluster'',
            ''pod-0.db.ns.svc.cluster.local'']\<rparr>,
      DeletePortForwardRequest = None\<rparr>"

text \<open>A proxier whose status type is a string, and a table with one entry.\<close>

definition example_table :: "(ServiceInfo \<times> string PortForwardConnection list) list" where
  "example_table =
     [(\<lparr>info_Name = ''web'', info_Namespace = ''default'', info_Type = []\<rparr>,
       [\<lparr>Status = ''running''\<rparr>])]"

definition example_worker :: "string worker" where
  "example_worker = \<lparr>portForwards = []\<rparr>"

section \<open>Properties of the classifier\<close>

lemma ServiceType_distinct: "ServiceTypeStatefulset \<noteq> ServiceTypeStandard"
  by (simp add: ServiceTypeStatefulset_def ServiceTypeStandard_def)

lemma EventType_distinct: "EventDeleted \<noteq> EventAdded"
  by (simp add: EventDeleted_def EventAdded_def)

subsection \<open>Helper lemmas\<close>

lemma serviceProcessor_skip:
  "serviceProcessor_event k s = Some [] \<Longrightarrow>
   serviceProcessor (before @ Received s k # rest) = serviceProcessor (before @ rest)"
proof (induction before)
  case Nil
  then show ?case by (simp split: prod.splits)
next
  case (Cons x before)
  then show ?case by (cases x) (simp_all split: option.splits)
qed

lemma event_kubernetes:
  "ev_Service s = Some svc \<Longrightarrow> svc_Name svc = ''kubernetes'' \<Longrightarrow> serviceProcessor_event k s = Some []"
  by (simp add: serviceProcessor_event_def newServiceInfo_def)

lemma event_requests_type:
  assumes "ev_Service s = Some svc"
    and "serviceProcessor_event k s = Some reqs"
    and "r \<in> set reqs"
  shows "(\<forall>c. CreatePortForwardRequest r = Some c \<longrightarrow>
            create_Service c = setServiceType svc (newServiceInfo svc)) \<and>
         (\<forall>d. DeletePortForwardRequest r = Some d \<longrightarrow>
            delete_Service d = setServiceType svc (newServiceInfo svc))"
  using assms
  by (auto simp add: serviceProcessor_event_def Let_def endpointsRequests_def addressRequests_def
      split: if_splits sum.splits option.splits)

lemma addressRequests_podTarget:
  "addressRequests info ports e =
     map (\<lambda>ref.
            \<lparr>CreatePortForwardRequest = Some
               \<lparr>create_Service = info,
                create_Ports = ports,
                create_Endpoint = Some \<lparr>pod_Name = ref_Name ref, pod_Namespace = ref_Namespace ref\<rparr>,
                create_Hostnames =
                  statefulsetHostnames info (ref_Name ref @ ''.'' @ info_Name info)\<rparr>,
             DeletePortForwardRequest = None\<rparr>)
         (case podTarget e of None \<Rightarrow> [] | Some ref \<Rightarrow> [ref])"
  by (simp add: addressRequests_def podTarget_def split: option.splits)

lemma concat_map_concat:
  "concat (map (\<lambda>x. concat (map f (g x))) xs) = concat (map f (concat (map g xs)))"
  by (induction xs) simp_all

lemma concat_addressRequests:
  "concat (map (addressRequests info ports) es) =
     map (\<lambda>ref.
            \<lparr>CreatePortForwardRequest = Some
               \<lparr>create_Service = info,
                create_Ports = ports,
                create_Endpoint = Some \<lparr>pod_Name = ref_Name ref, pod_Namespace = ref_Namespace ref\<rparr>,
                create_Hostnames =
                  statefulsetHostnames info (ref_Name ref @ ''.'' @ info_Name info)\<rparr>,
             DeletePortForwardRequest = None\<rparr>)
         (List.map_filter podTarget es)"
  by (induction es)
    (simp_all add: addressRequests_podTarget List.map_filter_simps split: option.splits)

lemma endpointsRequests_podTargets:
  "endpointsRequests info ports endpoints =
     map (\<lambda>ref.
            \<lparr>CreatePortForwardRequest = Some
               \<lparr>create_Service = info,
                create_Ports = ports,
                create_Endpoint = Some \<lparr>pod_Name = ref_Name ref, pod_Namespace = ref_Namespace ref\<rparr>,
                create_Hostnames =
                  statefulsetHostnames info (ref_Name ref @ ''.'' @ info_Name info)\<rparr>,
             DeletePortForwardRequest = None\<rparr>)
         (podTargets endpoints)"
proof -
  have "endpointsRequests info ports endpoints =
      concat (map (addressRequests info ports) (readyAddresses endpoints))"
    unfolding endpointsRequests_def readyAddresses_def by (rule concat_map_concat)
  then show ?thesis
    unfolding podTargets_def by (simp only: concat_addressRequests)
qed

lemma event_statefulset_added:
  assumes "ev_Service s = Some svc"
    and "ev_EventType s = EventAdded"
    and "svc_ClusterIP svc = ''None''"
    and "svc_Name svc \<noteq> ''kubernetes''"
  shows "serviceProcessor_event k s =
     (case k (svc_Namespace svc) (svc_Name svc) of
        Inl err \<Rightarrow> Some []
      | Inr endpoints \<Rightarrow>
          Some (endpointsRequests
                  \<lparr>info_Name = svc_Name svc, info_Namespace = svc_Namespace svc,
                   info_Type = ServiceTypeStatefulset\<rparr>
                  (servicePorts svc) endpoints))"
  using assms
  by (simp add: serviceProcessor_event_def newServiceInfo_def setServiceType_def
      ServiceTypeStandard_def ServiceTypeStatefulset_def split: sum.splits)

lemma Start_step_worker_None:
  assumes "worker (fst st) = None"
    and "\<forall>w. occ \<noteq> NewPortForwarderReturns (Some w) None"
  shows "worker (fst (Start_step occ st)) = None"
  using assms
  by (cases "(occ, st)" rule: Start_step.cases) (auto split: option.splits)

lemma fold_Start_step_worker_None:
  assumes "worker (fst st) = None"
    and "\<forall>w. NewPortForwarderReturns (Some w) None \<notin> set os"
  shows "worker (fst (fold Start_step os st)) = None"
  using assms
proof (induction os arbitrary: st)
  case Nil
  then show ?case by simp
next
  case (Cons occ os)
  from Cons.prems have "worker (fst (Start_step occ st)) = None"
    by (intro Start_step_worker_None) auto
  with Cons show ?case by simp
qed

lemma Start_step_worker_Some:
  assumes "worker (fst st) \<noteq> None" and "snd st \<noteq> Entry"
  shows "worker (fst (Start_step occ st)) \<noteq> None \<and> snd (Start_step occ st) \<noteq> Entry"
  using assms
  by (cases "(occ, st)" rule: Start_step.cases) (auto split: option.splits)

lemma fold_Start_step_worker_Some:
  assumes "worker (fst st) \<noteq> None" and "snd st \<noteq> Entry"
  shows "worker (fst (fold Start_step os st)) \<noteq> None"
  using assms
proof (induction os arbitrary: st)
  case Nil
  then show ?case by simp
next
  case (Cons occ os)
  from Start_step_worker_Some [OF Cons.prems, of occ] Cons.IH show ?case by simp
qed

lemma List_error_iff: "(snd (List q) = None) = (worker q \<noteq> None)"
  by (simp add: List_def split: option.splits)

lemma length_podTargets:
  "length (podTargets endpoints) =
   length (filter (\<lambda>e. podTarget e \<noteq> None) (readyAddresses endpoints))"
  by (simp add: podTargets_def List.map_filter_def)

lemma example_db_added_requests:
  "serviceProcessor_event example_kube example_db_added = Some [example_db_request]"
  by (simp add: serviceProcessor_event_def newServiceInfo_def setServiceType_def
      servicePorts_def endpointsRequests_def addressRequests_def statefulsetHostnames_def
      example_kube_def example_db_added_def example_db_def example_db_endpoints_def
      example_db_request_def EventAdded_def ServiceTypeStandard_def ServiceTypeStatefulset_def)

lemma example_web_deleted_requests:
  "serviceProcessor_event failing_kube example_web_deleted =
     Some [\<lparr>CreatePortForwardRequest = None,
            DeletePortForwardRequest = Some
              \<lparr>delete_Service =
                 \<lparr>info_Name = ''web'', info_Namespace = ''default'', info_Type = []\<rparr>\<rparr>\<rparr>]"
  by (simp add: serviceProcessor_event_def newServiceInfo_def setServiceType_def
      example_web_deleted_def example_web_def EventAdded_def EventDeleted_def)

subsection \<open>The claims\<close>

text \<open>
  Claim C1. An added event for a service whose cluster address is not \<^verbatim>\<open>"None"\<close> and
  whose name is not \<^verbatim>\<open>"kubernetes"\<close> sends exactly one request: a create request for the
  service with no endpoint, with the declared port numbers in their order, and with the
  five hostnames name, name.namespace, name.namespace.svc, name.namespace.svc.cluster and
  name.namespace.svc.cluster.local, in this order.
\<close>

theorem C1_standard_added:
  assumes "ev_Service s = Some svc"
    and "ev_EventType s = EventAdded"
    and "svc_ClusterIP svc \<noteq> ''None''"
    and "svc_Name svc \<noteq> ''kubernetes''"
  shows "serviceProcessor_event k s =
    Some [\<lparr>CreatePortForwardRequest = Some
             \<lparr>create_Service =
                \<lparr>info_Name = svc_Name svc, info_Namespace = svc_Namespace svc,
                 info_Type = ServiceTypeStandard\<rparr>,
              create_Ports = map (\<lambda>p. sint (port_Port p)) (svc_Ports svc),
              create_Endpoint = None,
              create_Hostnames =
                [svc_Name svc,
                 svc_Name svc @ ''.'' @ svc_Namespace svc,
                 svc_Name svc @ ''.'' @ svc_Namespace svc @ ''.svc'',
                 svc_Name svc @ ''.'' @ svc_Namespace svc @ ''.svc.cluster'',
                 svc_Name svc @ ''.'' @ svc_Namespace svc @ ''.svc.cluster.local'']\<rparr>,
           DeletePortForwardRequest = None\<rparr>]"
  using assms
  by (simp add: serviceProcessor_event_def newServiceInfo_def setServiceType_def
      servicePorts_def standardHostnames_def ServiceTypeStandard_def)

theorem C1_standard_added_witness:
  "ev_Service example_web_added = Some example_web \<and>
   ev_EventType example_web_added = EventAdded \<and>
   svc_ClusterIP example_web \<noteq> ''None'' \<and>
   svc_Name example_web \<noteq> ''kubernetes'' \<and>
   serviceProcessor_event failing_kube example_web_added =
     Some [\<lparr>CreatePortForwardRequest = Some
              \<lparr>create_Service =
                 \<lparr>info_Name = ''web'', info_Namespace = ''default'', info_Type = []\<rparr>,
               create_Ports = [80],
               create_Endpoint = None,
               create_Hostnames =
                 [''web'', ''web.default'', ''web.default.svc'', ''web.default.svc.cluster'',
                  ''web.default.svc.cluster.local'']\<rparr>,
            DeletePortForwardRequest = None\<rparr>]"
proof -
  have h1: "ev_Service example_web_added = Some example_web"
    by (simp add: example_web_added_def)
  have h2: "ev_EventType example_web_added = EventAdded"
    by (simp add: example_web_added_def)
  have h3: "svc_ClusterIP example_web \<noteq> ''None''"
    by (simp add: example_web_def)
  have h4: "svc_Name example_web \<noteq> ''kubernetes''"
    by (simp add: example_web_def)
  from C1_standard_added [where k = failing_kube, OF h1 h2 h3 h4] h1 h2 h3 h4 show ?thesis
    by (simp add: example_web_def ServiceTypeStandard_def)
qed

text \<open>
  Claim C2, as amended. An added event for a service whose cluster address is
  \<^verbatim>\<open>"None"\<close> and whose name is not \<^verbatim>\<open>"kubernetes"\<close>, when the endpoints lookup
  succeeds, sends exactly one create request for every ready address that refers back to
  a pod, in the order of the addresses, and none for the other addresses. Each request
  carries the pod's name and namespace as its endpoint, the declared port numbers, and five
  hostnames: the service's bare name first, then pod.service.namespace,
  pod.service.namespace.svc, pod.service.namespace.svc.cluster and
  pod.service.namespace.svc.cluster.local.
\<close>

theorem C2_statefulset_added:
  assumes "ev_Service s = Some svc"
    and "ev_EventType s = EventAdded"
    and "svc_ClusterIP svc = ''None''"
    and "svc_Name svc \<noteq> ''kubernetes''"
    and "k (svc_Namespace svc) (svc_Name svc) = Inr endpoints"
  shows "serviceProcessor_event k s =
     Some (map (\<lambda>ref.
            \<lparr>CreatePortForwardRequest = Some
               \<lparr>create_Service =
                  \<lparr>info_Name = svc_Name svc, info_Namespace = svc_Namespace svc,
                   info_Type = ServiceTypeStatefulset\<rparr>,
                create_Ports = map (\<lambda>p. sint (port_Port p)) (svc_Ports svc),
                create_Endpoint = Some \<lparr>pod_Name = ref_Name ref, pod_Namespace = ref_Namespace ref\<rparr>,
                create_Hostnames =
                  [svc_Name svc,
                   ref_Name ref @ ''.'' @ svc_Name svc @ ''.'' @ svc_Namespace svc,
                   ref_Name ref @ ''.'' @ svc_Name svc @ ''.'' @ svc_Namespace svc @ ''.svc'',
                   ref_Name ref @ ''.'' @ svc_Name svc @ ''.'' @ svc_Namespace svc @
                     ''.svc.cluster'',
                   ref_Name ref @ ''.'' @ svc_Name svc @ ''.'' @ svc_Namespace svc @
                     ''.svc.cluster.local'']\<rparr>,
             DeletePortForwardRequest = None\<rparr>)
         (podTargets endpoints)) \<and>
     length (podTargets endpoints) =
       length (filter (\<lambda>e. podTarget e \<noteq> None) (readyAddresses endpoints))"
  using event_statefulset_added [OF assms(1-4), of k] assms(5)
  by (simp add: endpointsRequests_podTargets statefulsetHostnames_def servicePorts_def
      length_podTargets)

theorem C2_statefulset_added_witness:
  "ev_Service example_db_added = Some example_db \<and>
   ev_EventType example_db_added = EventAdded \<and>
   svc_ClusterIP example_db = ''None'' \<and>
   svc_Name example_db \<noteq> ''kubernetes'' \<and>
   example_kube (svc_Namespace example_db) (svc_Name example_db) = Inr example_db_endpoints \<and>
   serviceProcessor_event example_kube example_db_added = Some [example_db_request] \<and>
   length (filter (\<lambda>e. podTarget e \<noteq> None) (readyAddresses example_db_endpoints)) = 1"
proof -
  have h1: "ev_Service example_db_added = Some example_db"
    by (simp add: example_db_added_def)
  have h2: "ev_EventType example_db_added = EventAdded"
    by (simp add: example_db_added_def)
  have h3: "svc_ClusterIP example_db = ''None''"
    by (simp add: example_db_def)
  have h4: "svc_Name example_db \<noteq> ''kubernetes''"
    by (simp add: example_db_def)
  have h5: "example_kube (svc_Namespace example_db) (svc_Name example_db) = Inr example_db_endpoints"
    by (simp add: example_kube_def example_db_def)
  have targets: "podTargets example_db_endpoints =
      [\<lparr>ref_Kind = ''Pod'', ref_Name = ''pod-0'', ref_Namespace = ''ns''\<rparr>]"
    by (simp add: podTargets_def readyAddresses_def podTarget_def example_db_endpoints_def
        List.map_filter_simps)
  from C2_statefulset_added [where k = example_kube, OF h1 h2 h3 h4 h5] h1 h2 h3 h4 h5 show ?thesis
    by (simp add: targets example_db_def example_db_request_def ServiceTypeStatefulset_def)
qed

text \<open>
  Claim C2 as stated fails: for the headless service \<open>db\<close> in namespace \<open>ns\<close> with the
  ready pod \<open>pod-0\<close>, the first of the five hostnames sent is \<open>db\<close>, whereas the
  progressive qualification of the root \<open>pod-0.db\<close> starts with \<open>pod-0.db\<close>.
\<close>

theorem C2_rooted_hostnames_counterexample:
  "serviceProcessor_event example_kube example_db_added = Some [example_db_request] \<and>
   map_option create_Hostnames (CreatePortForwardRequest example_db_request) =
     Some [''db'', ''pod-0.db.ns'', ''pod-0.db.ns.svc'', ''pod-0.db.ns.svc.cluster'',
           ''pod-0.db.ns.svc.cluster.local''] \<and>
   map_option create_Hostnames (CreatePortForwardRequest example_db_request) \<noteq>
     Some (qualifiedHostnames_spec ''pod-0.db'' ''ns'')"
  by (simp add: serviceProcessor_event_def newServiceInfo_def setServiceType_def
      servicePorts_def endpointsRequests_def addressRequests_def statefulsetHostnames_def
      example_kube_def example_db_added_def example_db_def example_db_endpoints_def
      example_db_request_def qualifiedHostnames_spec_def EventAdded_def
      ServiceTypeStandard_def ServiceTypeStatefulset_def)

text \<open>
  Claim C3. A deleted event for a service whose name is not \<^verbatim>\<open>"kubernetes"\<close> sends
  exactly one request, a delete request that carries the service's name, namespace and
  type, whatever the cluster address is. Neither the cluster API nor the worker's table
  is an input of the result.
\<close>

theorem C3_deleted:
  assumes "ev_Service s = Some svc"
    and "ev_EventType s = EventDeleted"
    and "svc_Name svc \<noteq> ''kubernetes''"
  shows "serviceProcessor_event k s =
    Some [\<lparr>CreatePortForwardRequest = None,
           DeletePortForwardRequest = Some
             \<lparr>delete_Service =
                \<lparr>info_Name = svc_Name svc, info_Namespace = svc_Namespace svc,
                 info_Type = (if svc_ClusterIP svc = ''None'' then ServiceTypeStatefulset
                              else ServiceTypeStandard)\<rparr>\<rparr>\<rparr>]"
  using assms
  by (simp add: serviceProcessor_event_def newServiceInfo_def setServiceType_def
      ServiceTypeStandard_def EventDeleted_def EventAdded_def)

theorem C3_deleted_witness:
  "ev_Service example_web_deleted = Some example_web \<and>
   ev_EventType example_web_deleted = EventDeleted \<and>
   svc_Name example_web \<noteq> ''kubernetes'' \<and>
   serviceProcessor_event failing_kube example_web_deleted =
     Some [\<lparr>CreatePortForwardRequest = None,
            DeletePortForwardRequest = Some
              \<lparr>delete_Service =
                 \<lparr>info_Name = ''web'', info_Namespace = ''default'', info_Type = []\<rparr>\<rparr>\<rparr>]"
proof -
  have h1: "ev_Service example_web_deleted = Some example_web"
    by (simp add: example_web_deleted_def)
  have h2: "ev_EventType example_web_deleted = EventDeleted"
    by (simp add: example_web_deleted_def)
  have h3: "svc_Name example_web \<noteq> ''kubernetes''"
    by (simp add: example_web_def)
  from C3_deleted [where k = failing_kube, OF h1 h2 h3] h1 h2 h3 show ?thesis
    by (simp add: example_web_def ServiceTypeStandard_def)
qed

text \<open>
  Claim C5. An event of any type for a service named \<^verbatim>\<open>"kubernetes"\<close> sends nothing, and
  this on every turn of the loop: a run with such an event at any place sends the same
  requests and ends the same way as the run without it.
\<close>

theorem C5_kubernetes_skipped:
  assumes "ev_Service s = Some svc"
    and "svc_Name svc = ''kubernetes''"
  shows "serviceProcessor_event k s = Some [] \<and>
         serviceProcessor (before @ Received s k # rest) = serviceProcessor (before @ rest)"
  using assms serviceProcessor_skip [of k s before rest] event_kubernetes [of s svc k]
  by simp

theorem C5_kubernetes_skipped_witness:
  "ev_Service example_kubernetes_added = Some example_kubernetes \<and>
   svc_Name example_kubernetes = ''kubernetes'' \<and>
   serviceProcessor_event example_kube example_kubernetes_added = Some [] \<and>
   serviceProcessor
     ([Received example_db_added example_kube] @
      Received example_kubernetes_added example_kube # [CtxDone]) =
   serviceProcessor ([Received example_db_added example_kube] @ [CtxDone]) \<and>
   serviceProcessor
     ([Received example_db_added example_kube] @
      Received example_kubernetes_added example_kube # [CtxDone]) =
   ([example_db_request], DoneClosed)"
proof -
  have h1: "ev_Service example_kubernetes_added = Some example_kubernetes"
    by (simp add: example_kubernetes_added_def)
  have h2: "svc_Name example_kubernetes = ''kubernetes''"
    by (simp add: example_kubernetes_def)
  have run: "serviceProcessor ([Received example_db_added example_kube] @ [CtxDone]) =
      ([example_db_request], DoneClosed)"
    by (simp add: example_db_added_requests)
  from C5_kubernetes_skipped
    [where k = example_kube and before = "[Received example_db_added example_kube]"
       and rest = "[CtxDone]", OF h1 h2] h1 h2 run
  show ?thesis
    by simp
qed

text \<open>
  Claim C6. When the endpoints lookup fails for an added event of a service whose cluster
  address is \<^verbatim>\<open>"None"\<close>, the event sends nothing, and the loop goes on: a run with such
  an event at any place sends the same requests and ends the same way as the run without
  it, so that the error shows nowhere.
\<close>

theorem C6_resolution_error:
  assumes "ev_Service s = Some svc"
    and "ev_EventType s = EventAdded"
    and "svc_ClusterIP svc = ''None''"
    and "k (svc_Namespace svc) (svc_Name svc) = Inl err"
  shows "serviceProcessor_event k s = Some [] \<and>
         serviceProcessor (before @ Received s k # rest) = serviceProcessor (before @ rest)"
proof -
  have "serviceProcessor_event k s = Some []"
    using assms
    by (simp add: serviceProcessor_event_def newServiceInfo_def setServiceType_def
        ServiceTypeStandard_def ServiceTypeStatefulset_def)
  then show ?thesis
    using serviceProcessor_skip [of k s before rest] by simp
qed

theorem C6_resolution_error_witness:
  "ev_Service example_db_added = Some example_db \<and>
   ev_EventType example_db_added = EventAdded \<and>
   svc_ClusterIP example_db = ''None'' \<and>
   failing_kube (svc_Namespace example_db) (svc_Name example_db) =
     Inl (ApiError ''connection refused'') \<and>
   serviceProcessor_event failing_kube example_db_added = Some [] \<and>
   serviceProcessor
     ([] @ Received example_db_added failing_kube #
      [Received example_web_deleted failing_kube, CtxDone]) =
   serviceProcessor ([] @ [Received example_web_deleted failing_kube, CtxDone]) \<and>
   serviceProcessor
     ([] @ Received example_db_added failing_kube #
      [Received example_web_deleted failing_kube, CtxDone]) =
   ([\<lparr>CreatePortForwardRequest = None,
      DeletePortForwardRequest = Some
        \<lparr>delete_Service =
           \<lparr>info_Name = ''web'', info_Namespace = ''default'', info_Type = []\<rparr>\<rparr>\<rparr>],
    DoneClosed)"
proof -
  have h1: "ev_Service example_db_added = Some example_db"
    by (simp add: example_db_added_def)
  have h2: "ev_EventType example_db_added = EventAdded"
    by (simp add: example_db_added_def)
  have h3: "svc_ClusterIP example_db = ''None''"
    by (simp add: example_db_def)
  have h4: "failing_kube (svc_Namespace example_db) (svc_Name example_db) =
      Inl (ApiError ''connection refused'')"
    by (simp add: failing_kube_def)
  have run: "serviceProcessor ([] @ [Received example_web_deleted failing_kube, CtxDone]) =
      ([\<lparr>CreatePortForwardRequest = None,
         DeletePortForwardRequest = Some
           \<lparr>delete_Service =
              \<lparr>info_Name = ''web'', info_Namespace = ''default'', info_Type = []\<rparr>\<rparr>\<rparr>],
       DoneClosed)"
    by (simp add: example_web_deleted_requests)
  from C6_resolution_error
    [where k = failing_kube and before = "[]"
       and rest = "[Received example_web_deleted failing_kube, CtxDone]", OF h1 h2 h3 h4]
    h1 h2 h3 h4 run
  show ?thesis
    by simp
qed

text \<open>
  Claim C7. While \<^verbatim>\<open>p.worker\<close> is nil, \<^verbatim>\<open>List\<close> returns no statuses and the error
  \<^verbatim>\<open>"proxier not running"\<close>. A call of \<^verbatim>\<open>Start\<close> whose \<^verbatim>\<open>NewPortForwarder\<close> fails
  returns that error and leaves the proxier as it was. And \<^verbatim>\<open>List\<close> keeps returning the
  error after whatever occurs, as long as no \<^verbatim>\<open>NewPortForwarder\<close> has returned a
  worker without an error.
\<close>

theorem C7_not_running:
  assumes "worker p = None"
    and "\<forall>w. NewPortForwarderReturns (Some w) None \<notin> set os"
  shows "List p = ([], Some (Errorf ''proxier not running'')) \<and>
         Start_step (NewPortForwarderReturns w' (Some err)) (p, Entry) = (p, Returned (Some err)) \<and>
         List (fst (fold Start_step os (p, c))) = ([], Some (Errorf ''proxier not running''))"
proof -
  have "worker (fst (fold Start_step os (p, c))) = None"
    using assms by (intro fold_Start_step_worker_None) simp_all
  with assms(1) show ?thesis
    by (simp add: List_def)
qed

theorem C7_not_running_witness:
  "worker (NewProxier :: string Proxier) = None \<and>
   (\<forall>w. NewPortForwarderReturns (Some w) None \<notin>
      set [NewPortForwarderReturns None (Some (ApiError ''no cluster'')),
           WorkerWrites example_table, HandlerDoneClosed]) \<and>
   List (NewProxier :: string Proxier) = ([], Some (Errorf ''proxier not running'')) \<and>
   Start_step (NewPortForwarderReturns None (Some (ApiError ''no cluster'')))
     (NewProxier :: string Proxier, Entry) =
     (NewProxier, Returned (Some (ApiError ''no cluster''))) \<and>
   List (fst (fold Start_step
      [NewPortForwarderReturns None (Some (ApiError ''no cluster'')),
       WorkerWrites example_table, HandlerDoneClosed]
      (NewProxier :: string Proxier, Entry))) = ([], Some (Errorf ''proxier not running''))"
proof -
  have h1: "worker (NewProxier :: string Proxier) = None"
    by (simp add: NewProxier_def)
  have h2: "\<forall>w. NewPortForwarderReturns (Some w) None \<notin>
      set [NewPortForwarderReturns None (Some (ApiError ''no cluster'')),
           WorkerWrites example_table, HandlerDoneClosed]"
    by simp
  from C7_not_running [OF h1 h2] h1 h2 show ?thesis
    by blast
qed

text \<open>
  Claim C8. The type that the processor sets is \<^verbatim>\<open>ServiceTypeStatefulset\<close> if and only
  if the cluster address is \<^verbatim>\<open>"None"\<close>, and \<^verbatim>\<open>ServiceTypeStandard\<close> if and only if it is
  not; and every request sent for an event, create or delete, carries the type so set.
\<close>

theorem C8_topology:
  assumes "ev_Service s = Some svc"
    and "serviceProcessor_event k s = Some reqs"
    and "r \<in> set reqs"
  shows "(info_Type (setServiceType svc (newServiceInfo svc)) = ServiceTypeStatefulset) =
           (svc_ClusterIP svc = ''None'') \<and>
         (info_Type (setServiceType svc (newServiceInfo svc)) = ServiceTypeStandard) =
           (svc_ClusterIP svc \<noteq> ''None'') \<and>
         (\<forall>c. CreatePortForwardRequest r = Some c \<longrightarrow>
            (info_Type (create_Service c) = ServiceTypeStatefulset) = (svc_ClusterIP svc = ''None'') \<and>
            (info_Type (create_Service c) = ServiceTypeStandard) = (svc_ClusterIP svc \<noteq> ''None'')) \<and>
         (\<forall>d. DeletePortForwardRequest r = Some d \<longrightarrow>
            (info_Type (delete_Service d) = ServiceTypeStatefulset) = (svc_ClusterIP svc = ''None'') \<and>
            (info_Type (delete_Service d) = ServiceTypeStandard) = (svc_ClusterIP svc \<noteq> ''None''))"
proof -
  have t: "(info_Type (setServiceType svc (newServiceInfo svc)) = ServiceTypeStatefulset) =
             (svc_ClusterIP svc = ''None'') \<and>
           (info_Type (setServiceType svc (newServiceInfo svc)) = ServiceTypeStandard) =
             (svc_ClusterIP svc \<noteq> ''None'')"
    by (simp add: setServiceType_def newServiceInfo_def ServiceTypeStatefulset_def
        ServiceTypeStandard_def)
  from event_requests_type [OF assms] t show ?thesis
    by simp
qed

theorem C8_topology_witness:
  "ev_Service example_db_added = Some example_db \<and>
   serviceProcessor_event example_kube example_db_added = Some [example_db_request] \<and>
   example_db_request \<in> set [example_db_request] \<and>
   svc_ClusterIP example_db = ''None'' \<and>
   info_Type (setServiceType example_db (newServiceInfo example_db)) = ServiceTypeStatefulset \<and>
   map_option (\<lambda>c. info_Type (create_Service c)) (CreatePortForwardRequest example_db_request) =
     Some ServiceTypeStatefulset"
proof -
  have h1: "ev_Service example_db_added = Some example_db"
    by (simp add: example_db_added_def)
  have h2: "serviceProcessor_event example_kube example_db_added = Some [example_db_request]"
    by (rule example_db_added_requests)
  have h3: "example_db_request \<in> set [example_db_request]"
    by simp
  have h4: "svc_ClusterIP example_db = ''None''"
    by (simp add: example_db_def)
  have c: "CreatePortForwardRequest example_db_request =
      Some \<lparr>create_Service = \<lparr>info_Name = ''db'', info_Namespace = ''ns'', info_Type = ''statefulset''\<rparr>,
            create_Ports = [5432],
            create_Endpoint = Some \<lparr>pod_Name = ''pod-0'', pod_Namespace = ''ns''\<rparr>,
            create_Hostnames =
              [''db'', ''pod-0.db.ns'', ''pod-0.db.ns.svc'', ''pod-0.db.ns.svc.cluster'',
               ''pod-0.db.ns.svc.cluster.local'']\<rparr>"
    by (simp add: example_db_request_def)
  from C8_topology [OF h1 h2 h3] h1 h2 h3 h4 c show ?thesis
    by simp
qed

text \<open>
  Claim C9. Once \<^verbatim>\<open>NewPortForwarder\<close> has returned a worker without an error and
  \<^verbatim>\<open>Start\<close> has assigned it, \<^verbatim>\<open>List\<close> returns no error after whatever occurs next:
  the worker writing its table, the done channels being closed, \<^verbatim>\<open>Start\<close> returning.
  \<^verbatim>\<open>List\<close> returns an error exactly when \<^verbatim>\<open>p.worker\<close> is nil.
\<close>

theorem C9_running:
  "snd (List (fst (fold Start_step os
      (Start_step (NewPortForwarderReturns (Some w) None) (p, Entry))))) = None \<and>
   (snd (List q) = None) = (worker q \<noteq> None)"
proof -
  have "worker (fst (fold Start_step os
      (Start_step (NewPortForwarderReturns (Some w) None) (p, Entry)))) \<noteq> None"
    by (intro fold_Start_step_worker_Some) simp_all
  then show ?thesis
    by (simp add: List_error_iff)
qed

theorem C9_running_witness:
  "List (fst (fold Start_step [WorkerWrites example_table, HandlerDoneClosed, PfDoneClosed]
      (Start_step (NewPortForwarderReturns (Some example_worker) None) (NewProxier, Entry)))) =
     ([\<lparr>ServiceInfo = \<lparr>info_Name = ''web'', info_Namespace = ''default'', info_Type = []\<rparr>,
        Statuses = [''running'']\<rparr>], None)"
proof -
  have "snd (List (fst (fold Start_step [WorkerWrites example_table, HandlerDoneClosed, PfDoneClosed]
      (Start_step (NewPortForwarderReturns (Some example_worker) None) (NewProxier, Entry))))) =
      None"
    using C9_running [of "[WorkerWrites example_table, HandlerDoneClosed, PfDoneClosed]"
        example_worker NewProxier] by blast
  then show ?thesis
    by (simp add: List_def NewProxier_def example_worker_def example_table_def)
qed

text \<open>
  Claim C10. Every request sent for an added event of a service whose cluster address is
  \<^verbatim>\<open>"None"\<close> is a create request whose ports are the service's declared port numbers in
  their order; and the requests sent stay the same when the ports listed in the endpoint
  subsets are replaced by any others.
\<close>

theorem C10_same_ports:
  assumes "ev_Service s = Some svc"
    and "ev_EventType s = EventAdded"
    and "svc_ClusterIP svc = ''None''"
    and "serviceProcessor_event k s = Some reqs"
    and "r \<in> set reqs"
  shows "(\<exists>c. CreatePortForwardRequest r = Some c \<and>
              create_Ports c = map (\<lambda>p. sint (port_Port p)) (svc_Ports svc)) \<and>
         serviceProcessor_event (withSubsetPorts f k) s = Some reqs"
proof (cases "svc_Name svc = ''kubernetes''")
  case True
  with assms show ?thesis
    by (simp add: serviceProcessor_event_def newServiceInfo_def)
next
  case False
  note ev = event_statefulset_added [OF assms(1-3) False]
  have indep: "endpointsRequests info ports
      (endpoints\<lparr>Subsets := map (\<lambda>sub. sub\<lparr>Ports := f sub\<rparr>) (Subsets endpoints)\<rparr>) =
      endpointsRequests info ports endpoints" for info ports endpoints
    by (simp add: endpointsRequests_def comp_def)
  show ?thesis
  proof (cases "k (svc_Namespace svc) (svc_Name svc)")
    case (Inl err)
    with ev [of k] assms(4,5) show ?thesis by simp
  next
    case (Inr endpoints)
    with ev [of k] assms(4) have reqs: "reqs = endpointsRequests
        \<lparr>info_Name = svc_Name svc, info_Namespace = svc_Namespace svc,
         info_Type = ServiceTypeStatefulset\<rparr> (servicePorts svc) endpoints"
      by simp
    have "\<exists>c. CreatePortForwardRequest r = Some c \<and>
              create_Ports c = map (\<lambda>p. sint (port_Port p)) (svc_Ports svc)"
      using assms(5) unfolding reqs endpointsRequests_podTargets
      by (auto simp add: servicePorts_def)
    moreover have "serviceProcessor_event (withSubsetPorts f k) s = Some reqs"
      using ev [of "withSubsetPorts f k"] Inr
      by (simp add: withSubsetPorts_def indep reqs)
    ultimately show ?thesis by simp
  qed
qed

theorem C10_same_ports_witness:
  "ev_Service example_db_added = Some example_db \<and>
   ev_EventType example_db_added = EventAdded \<and>
   svc_ClusterIP example_db = ''None'' \<and>
   serviceProcessor_event example_kube example_db_added = Some [example_db_request] \<and>
   example_db_request \<in> set [example_db_request] \<and>
   (\<exists>c. CreatePortForwardRequest example_db_request = Some c \<and> create_Ports c = [5432]) \<and>
   serviceProcessor_event (withSubsetPorts (\<lambda>sub. []) example_kube) example_db_added =
     Some [example_db_request]"
proof -
  have h1: "ev_Service example_db_added = Some example_db"
    by (simp add: example_db_added_def)
  have h2: "ev_EventType example_db_added = EventAdded"
    by (simp add: example_db_added_def)
  have h3: "svc_ClusterIP example_db = ''None''"
    by (simp add: example_db_def)
  have h4: "serviceProcessor_event example_kube example_db_added = Some [example_db_request]"
    by (rule example_db_added_requests)
  have h5: "example_db_request \<in> set [example_db_request]"
    by simp
  have ports: "map (\<lambda>p. sint (port_Port p)) (svc_Ports example_db) = [5432]"
    by (simp add: example_db_def)
  from C10_same_ports [where f = "\<lambda>sub. []", OF h1 h2 h3 h4 h5] h1 h2 h3 h4 h5 show ?thesis
    by (simp add: ports)
qed

end
